theory Spec2Isabelle
  imports Complex_Main "HOL-Library.Char_ord" "HOL-Library.List_Lexorder"
begin

section \<open>Oscilloscope capture processing (plot.py)\<close>

text \<open>
  The script reads Tektronix CSV captures, subtracts the sensor's voltage offset, clips,
  smooths with a moving average and converts the voltage into a current.

  Python exceptions are values of \<open>py_error\<close>, and a function that can raise returns
  \<open>py_error + 'a\<close>. UnicodeDecodeError is a subclass of ValueError, so
  \<open>except ValueError\<close> catches both.
\<close>

datatype py_error =
  ValueError | UnicodeDecodeError | IndexError
| FileNotFoundError | PermissionError | IsADirectoryError | OSError

definition is_ValueError :: "py_error \<Rightarrow> bool" where
  "is_ValueError e = (e = ValueError \<or> e = UnicodeDecodeError)"

subsection \<open>Samples\<close>

text \<open>
  A sample is a numpy float64: a finite number, an infinity or NaN. Finite numbers are
  exact reals, so rounding and overflow are outside the model, and zero has no sign. The
  operations on the other values are those of IEEE 754: NaN is absorbing, an infinity
  minus itself and zero times an infinity are NaN, a non-zero finite number divided by
  zero is an infinity of its sign, zero divided by zero is NaN, and a comparison with NaN
  is false.
\<close>

datatype np_float = Finite real | PosInf | NegInf | NaN

fun np_neg :: "np_float \<Rightarrow> np_float" where
  "np_neg (Finite x) = Finite (- x)"
| "np_neg PosInf = NegInf"
| "np_neg NegInf = PosInf"
| "np_neg NaN = NaN"

fun np_add :: "np_float \<Rightarrow> np_float \<Rightarrow> np_float" where
  "np_add NaN b = NaN"
| "np_add a NaN = NaN"
| "np_add (Finite x) (Finite y) = Finite (x + y)"
| "np_add PosInf NegInf = NaN"
| "np_add NegInf PosInf = NaN"
| "np_add PosInf b = PosInf"
| "np_add NegInf b = NegInf"
| "np_add a PosInf = PosInf"
| "np_add a NegInf = NegInf"

definition np_sub :: "np_float \<Rightarrow> np_float \<Rightarrow> np_float" where
  "np_sub a b = np_add a (np_neg b)"

text \<open>The sign of a sample that is not NaN: -1, 0 or 1.\<close>

fun np_sign :: "np_float \<Rightarrow> int" where
  "np_sign (Finite x) = (if x < 0 then - 1 else if x = 0 then 0 else 1)"
| "np_sign PosInf = 1"
| "np_sign NegInf = - 1"
| "np_sign NaN = 0"

definition signed_inf :: "int \<Rightarrow> np_float" where
  "signed_inf s = (if s < 0 then NegInf else if s = 0 then NaN else PosInf)"

fun np_mul :: "np_float \<Rightarrow> np_float \<Rightarrow> np_float" where
  "np_mul NaN b = NaN"
| "np_mul a NaN = NaN"
| "np_mul (Finite x) (Finite y) = Finite (x * y)"
| "np_mul a b = signed_inf (np_sign a * np_sign b)"

fun np_div :: "np_float \<Rightarrow> np_float \<Rightarrow> np_float" where
  "np_div NaN b = NaN"
| "np_div a NaN = NaN"
| "np_div (Finite x) (Finite y) =
     (if y \<noteq> 0 then Finite (x / y) else signed_inf (np_sign (Finite x)))"
| "np_div (Finite x) b = Finite 0"
| "np_div a (Finite y) = signed_inf (np_sign a * (if y < 0 then - 1 else 1))"
| "np_div a b = NaN"

fun np_less :: "np_float \<Rightarrow> np_float \<Rightarrow> bool" where
  "np_less NaN b = False"
| "np_less a NaN = False"
| "np_less (Finite x) (Finite y) = (x < y)"
| "np_less a NegInf = False"
| "np_less PosInf b = False"
| "np_less a b = True"

primrec np_sum :: "np_float list \<Rightarrow> np_float" where
  "np_sum [] = Finite 0"
| "np_sum (x # xs) = np_add x (np_sum xs)"

subsection \<open>numpy primitives used by \<open>smooth_data\<close>\<close>

text \<open>
  \<open>np.pad(data, pad_width, mode='edge')\<close> on a one-dimensional array: \<open>pad_width\<close> copies of
  the first sample in front and of the last sample behind. numpy raises ValueError for a
  negative width, and for an empty array that is asked to grow.
\<close>

definition np_pad_edge :: "np_float list \<Rightarrow> int \<Rightarrow> py_error + np_float list" where
  "np_pad_edge xs pad_width =
     (if pad_width < 0 then Inl ValueError
      else if xs = [] \<and> pad_width > 0 then Inl ValueError
      else if xs = [] then Inr []
      else Inr (replicate (nat pad_width) (hd xs) @ xs @ replicate (nat pad_width) (last xs)))"

text \<open>\<open>np.ones(n)\<close>: ValueError for a negative dimension.\<close>

definition np_ones :: "int \<Rightarrow> py_error + np_float list" where
  "np_ones n = (if n < 0 then Inl ValueError else Inr (replicate (nat n) (Finite 1)))"

text \<open>
  The discrete convolution \<open>(a * v)[k] = \<Sum>j. a[j] * v[k - j]\<close>, the sum ranging over the
  indices where both operands are defined.
\<close>

definition conv_at :: "np_float list \<Rightarrow> np_float list \<Rightarrow> nat \<Rightarrow> np_float" where
  "conv_at a v k =
     np_sum (map (\<lambda>j. if j \<le> k \<and> k - j < length v then np_mul (a ! j) (v ! (k - j))
                       else Finite 0)
               [0..<length a])"

text \<open>
  \<open>np.convolve(a, v, mode='same')\<close>: ValueError when an operand is empty; the operands are
  swapped when \<open>v\<close> is the longer one; the result has the length of the longer operand and
  is the centre of the full convolution, which starts at offset \<open>(n2 - 1) div 2\<close> for the
  shorter length \<open>n2\<close> (numpy computes \<open>n_left = n2 div 2\<close> and starts at \<open>n2 - 1 - n_left\<close>).
\<close>

definition np_convolve_same :: "np_float list \<Rightarrow> np_float list \<Rightarrow> py_error + np_float list" where
  "np_convolve_same a v =
     (if a = [] \<or> v = [] then Inl ValueError
      else let a1 = (if length v > length a then v else a);
               v1 = (if length v > length a then a else v);
               n_left = length v1 div 2;
               off = length v1 - 1 - n_left
           in Inr (map (\<lambda>i. conv_at a1 v1 (i + off)) [0..<length a1]))"

text \<open>
  A Python slice \<open>xs[i:j]\<close> with step 1: a negative bound counts from the end, and both
  bounds are clamped to the array.
\<close>

definition slice_bound :: "nat \<Rightarrow> int \<Rightarrow> nat" where
  "slice_bound n i = (if i < 0 then nat (max 0 (int n + i)) else min n (nat i))"

definition py_slice :: "'a list \<Rightarrow> int \<Rightarrow> int \<Rightarrow> 'a list" where
  "py_slice xs i j =
     (let lo = slice_bound (length xs) i; hi = slice_bound (length xs) j
      in take (hi - lo) (drop lo xs))"

subsection \<open>\<open>smooth_data\<close>\<close>

definition smooth_data :: "np_float list \<Rightarrow> int \<Rightarrow> py_error + np_float list" where
  "smooth_data data window_size =
     (if int (length data) < window_size then Inr data
      else
        let pad_width = window_size div 2 in
        case np_pad_edge data pad_width of
          Inl e \<Rightarrow> Inl e
        | Inr padded_data \<Rightarrow>
            (case np_ones window_size of
               Inl e \<Rightarrow> Inl e
             | Inr ones \<Rightarrow>
                 (case np_convolve_same padded_data
                         (map (\<lambda>x. np_div x (Finite (real_of_int window_size))) ones) of
                    Inl e \<Rightarrow> Inl e
                  | Inr smoothed \<Rightarrow> Inr (py_slice smoothed pad_width (- pad_width)))))"

subsection \<open>Paths\<close>

text \<open>
  File names and console text are strings of 8-bit characters. \<open>s.rfind(c)\<close> is the index
  of the last occurrence, or -1.
\<close>

definition endswith :: "string \<Rightarrow> string \<Rightarrow> bool" where
  "endswith s suffix = (drop (length s - length suffix) s = suffix)"

definition rfind :: "char \<Rightarrow> string \<Rightarrow> int" where
  "rfind c s =
     (if c \<in> set s then int (length s) - 1 - int (length (takeWhile (\<lambda>d. d \<noteq> c) (rev s)))
      else - 1)"

text \<open>\<open>os.path.basename\<close>, \<open>os.path.splitext\<close> and \<open>os.path.join\<close> of posixpath.\<close>

definition basename :: "string \<Rightarrow> string" where
  "basename p = drop (nat (rfind CHR ''/'' p + 1)) p"

definition splitext :: "string \<Rightarrow> string \<times> string" where
  "splitext p =
     (let sepIndex = rfind CHR ''/'' p;
          dotIndex = rfind CHR ''.'' p
      in if dotIndex > sepIndex \<and>
            list_ex (\<lambda>k. p ! k \<noteq> CHR ''.'') [nat (sepIndex + 1)..<nat dotIndex]
         then (take (nat dotIndex) p, drop (nat dotIndex) p)
         else (p, []))"

definition join2 :: "string \<Rightarrow> string \<Rightarrow> string" where
  "join2 path b =
     (if b \<noteq> [] \<and> hd b = CHR ''/'' then b
      else if path = [] \<or> last path = CHR ''/'' then path @ b
      else path @ ''/'' @ b)"

definition os_path_join :: "string \<Rightarrow> string list \<Rightarrow> string" where
  "os_path_join a ps = foldl join2 a ps"

subsection \<open>Reading a text file\<close>

text \<open>
  The text of a file is a list of Unicode code points, each an integer. \<open>str\<close> writes a text whose
  characters are below 256 as a string.
\<close>

type_synonym ustr = "int list"

definition str :: "string \<Rightarrow> ustr" where
  "str s = map of_char s"

text \<open>
  The strict UTF-8 decoder, the default text encoding of \<open>open\<close> on Linux and macOS. A
  byte that cannot start a character, a missing or wrong continuation byte, an overlong
  form and a surrogate raise UnicodeDecodeError.
\<close>

definition continuation :: "int \<Rightarrow> bool" where
  "continuation b = (128 \<le> b \<and> b \<le> 191)"

definition decoded :: "int \<Rightarrow> py_error + ustr \<Rightarrow> py_error + ustr" where
  "decoded c r = (case r of Inl e \<Rightarrow> Inl e | Inr cs \<Rightarrow> Inr (c # cs))"

fun utf8 :: "int list \<Rightarrow> py_error + ustr" where
  "utf8 [] = Inr []"
| "utf8 (b # bs) =
     (if b < 128 then decoded b (utf8 bs)
      else if 194 \<le> b \<and> b \<le> 223 then
        (case bs of
           c1 # r \<Rightarrow>
             if continuation c1 then decoded ((b - 192) * 64 + (c1 - 128)) (utf8 r)
             else Inl UnicodeDecodeError
         | _ \<Rightarrow> Inl UnicodeDecodeError)
      else if 224 \<le> b \<and> b \<le> 239 then
        (case bs of
           c1 # c2 # r \<Rightarrow>
             if continuation c1 \<and> continuation c2
                \<and> (if b = 224 then 160 \<le> c1 else True)
                \<and> (if b = 237 then c1 \<le> 159 else True)
             then decoded ((b - 224) * 4096 + (c1 - 128) * 64 + (c2 - 128)) (utf8 r)
             else Inl UnicodeDecodeError
         | _ \<Rightarrow> Inl UnicodeDecodeError)
      else if 240 \<le> b \<and> b \<le> 244 then
        (case bs of
           c1 # c2 # c3 # r \<Rightarrow>
             if continuation c1 \<and> continuation c2 \<and> continuation c3
                \<and> (if b = 240 then 144 \<le> c1 else True)
                \<and> (if b = 244 then c1 \<le> 143 else True)
             then decoded ((b - 240) * 262144 + (c1 - 128) * 4096 + (c2 - 128) * 64
                            + (c3 - 128)) (utf8 r)
             else Inl UnicodeDecodeError
         | _ \<Rightarrow> Inl UnicodeDecodeError)
      else Inl UnicodeDecodeError)"

definition utf8_decode :: "string \<Rightarrow> py_error + ustr" where
  "utf8_decode bytes = utf8 (map of_char bytes)"

text \<open>
  Text mode with universal newlines: \<open>\r\n\<close> and a lone \<open>\r\<close> are read as \<open>\n\<close>, and
  \<open>readlines()\<close> ends a line after each \<open>\n\<close>, which it keeps.
\<close>

fun translate_newlines :: "ustr \<Rightarrow> ustr" where
  "translate_newlines [] = []"
| "translate_newlines [c] = (if c = 13 then [10] else [c])"
| "translate_newlines (c # d # cs) =
     (if c = 13 \<and> d = 10 then 10 # translate_newlines cs
      else if c = 13 then 10 # translate_newlines (d # cs)
      else c # translate_newlines (d # cs))"

fun keepends :: "ustr \<Rightarrow> ustr list" where
  "keepends [] = []"
| "keepends (c # cs) =
     (if c = 10 then [c] # keepends cs
      else (case keepends cs of
              [] \<Rightarrow> [[c]]
            | l # ls \<Rightarrow> (c # l) # ls))"

definition readlines :: "ustr \<Rightarrow> ustr list" where
  "readlines t = keepends (translate_newlines t)"

text \<open>
  \<open>str.strip()\<close> removes the characters for which \<open>str.isspace()\<close> holds from both ends.
\<close>

definition py_isspace :: "int \<Rightarrow> bool" where
  "py_isspace n =
     ((9 \<le> n \<and> n \<le> 13) \<or> (28 \<le> n \<and> n \<le> 32) \<or> n = 133 \<or> n = 160 \<or> n = 5760
      \<or> (8192 \<le> n \<and> n \<le> 8202) \<or> n = 8232 \<or> n = 8233 \<or> n = 8239 \<or> n = 8287
      \<or> n = 12288)"

definition strip :: "ustr \<Rightarrow> ustr" where
  "strip s = rev (dropWhile py_isspace (rev (dropWhile py_isspace s)))"

text \<open>\<open>s.split(sep)\<close> for a one-character separator: the empty string gives one empty part.\<close>

fun split :: "'c \<Rightarrow> 'c list \<Rightarrow> 'c list list" where
  "split sep [] = [[]]"
| "split sep (c # cs) =
     (if c = sep then [] # split sep cs
      else (case split sep cs of
              [] \<Rightarrow> [[c]]
            | p # ps \<Rightarrow> (c # p) # ps))"

subsection \<open>\<open>read_tek_csv\<close>\<close>

text \<open>
  \<open>float(s)\<close> is a parameter \<open>float :: ustr \<Rightarrow> py_error + 'a\<close>: it returns the number or
  raises. \<open>parts[i]\<close> raises IndexError out of range. The body of the \<open>try\<close> parses both
  columns before it appends either value.
\<close>

definition list_get :: "'a list \<Rightarrow> nat \<Rightarrow> py_error + 'a" where
  "list_get xs i = (if i < length xs then Inr (xs ! i) else Inl IndexError)"

definition parse_row :: "(ustr \<Rightarrow> py_error + 'a) \<Rightarrow> ustr list \<Rightarrow> py_error + ('a \<times> 'a)" where
  "parse_row float parts =
     (case list_get parts 3 of
        Inl e \<Rightarrow> Inl e
      | Inr p3 \<Rightarrow>
          (case float p3 of
             Inl e \<Rightarrow> Inl e
           | Inr time_val \<Rightarrow>
               (case list_get parts 4 of
                  Inl e \<Rightarrow> Inl e
                | Inr p4 \<Rightarrow>
                    (case float p4 of
                       Inl e \<Rightarrow> Inl e
                     | Inr voltage_val \<Rightarrow> Inr (time_val, voltage_val)))))"

text \<open>
  One iteration of the loop over the lines. The state is the pair
  \<open>(time_data, voltage_data)\<close>. \<open>except (ValueError, IndexError): continue\<close> keeps the state;
  any other exception leaves the function.
\<close>

definition read_row ::
  "(ustr \<Rightarrow> py_error + 'a) \<Rightarrow> 'a list \<times> 'a list \<Rightarrow> ustr \<Rightarrow> py_error + ('a list \<times> 'a list)" where
  "read_row float st line =
     (let parts = split (of_char CHR '','') (strip line) in
      if length parts \<ge> 5 then
        (case parse_row float parts of
           Inr (time_val, voltage_val) \<Rightarrow> Inr (fst st @ [time_val], snd st @ [voltage_val])
         | Inl e \<Rightarrow> if is_ValueError e \<or> e = IndexError then Inr st else Inl e)
      else Inr st)"

fun read_rows ::
  "(ustr \<Rightarrow> py_error + 'a) \<Rightarrow> ustr list \<Rightarrow> 'a list \<times> 'a list \<Rightarrow> py_error + ('a list \<times> 'a list)" where
  "read_rows float [] st = Inr st"
| "read_rows float (line # lines) st =
     (case read_row float st line of
        Inl e \<Rightarrow> Inl e
      | Inr st' \<Rightarrow> read_rows float lines st')"

text \<open>
  Lines 62-79. \<open>fs\<close> is the file system: the bytes of the file at a path, or the error
  \<open>open\<close> raises for it. \<open>decode\<close> is the default text encoding of the platform; it raises
  UnicodeDecodeError on bytes it cannot decode. \<open>open\<close> and \<open>readlines()\<close> stand outside the
  \<open>try\<close>, so their errors leave the function, and the whole file is decoded before the
  first row is looked at.
\<close>

definition read_tek_csv ::
  "(string \<Rightarrow> py_error + ustr) \<Rightarrow> (ustr \<Rightarrow> py_error + 'a) \<Rightarrow> (string \<Rightarrow> py_error + string) \<Rightarrow>
     string \<Rightarrow> py_error + ('a list \<times> 'a list)" where
  "read_tek_csv decode float fs filename =
     (case fs filename of
        Inl e \<Rightarrow> Inl e
      | Inr bytes \<Rightarrow>
          (case decode bytes of
             Inl e \<Rightarrow> Inl e
           | Inr content \<Rightarrow> read_rows float (readlines content) ([], [])))"

text \<open>
  \<open>float\<close> applied to a string raises ValueError and nothing else. The rows the function
  is said to keep: at least five comma-separated fields, of which the fourth and the
  fifth parse as floats.
\<close>

definition raises_only_ValueError :: "(ustr \<Rightarrow> py_error + 'a) \<Rightarrow> bool" where
  "raises_only_ValueError float = (\<forall>x e. float x = Inl e \<longrightarrow> e = ValueError)"

definition csv_fields :: "ustr \<Rightarrow> ustr list" where
  "csv_fields line = split (of_char CHR '','') (strip line)"

definition row_parses :: "(ustr \<Rightarrow> py_error + 'a) \<Rightarrow> ustr \<Rightarrow> bool" where
  "row_parses float line =
     (5 \<le> length (csv_fields line) \<and> \<not> isl (float (csv_fields line ! 3))
      \<and> \<not> isl (float (csv_fields line ! 4)))"

definition time_of :: "(ustr \<Rightarrow> py_error + 'a) \<Rightarrow> ustr \<Rightarrow> 'a" where
  "time_of float line = projr (float (csv_fields line ! 3))"

definition voltage_of :: "(ustr \<Rightarrow> py_error + 'a) \<Rightarrow> ustr \<Rightarrow> 'a" where
  "voltage_of float line = projr (float (csv_fields line ! 4))"

subsection \<open>\<open>plot_voltage_and_current\<close>: the numeric transform\<close>

text \<open>
  The Python numbers of the script, \<open>VOLTAGE_OFFSET\<close> and the threshold, are reals, and so
  is the sensitivity argument, a finite Python number (200 at every call in the script).
\<close>

definition VOLTAGE_OFFSET :: real where
  "VOLTAGE_OFFSET = 1.67"

text \<open>Lines 98-99: the offset depends on the base name of the file, extension stripped.\<close>

definition voltage_offset_of :: "string \<Rightarrow> real" where
  "voltage_offset_of filename =
     (if fst (splitext (basename filename)) \<in> set [''TEK0012''] then VOLTAGE_OFFSET - 0.08
      else VOLTAGE_OFFSET)"

text \<open>Line 105, \<open>voltage[voltage < -0.1] = 0\<close>: the masked assignment, sample by sample.\<close>

definition clip_sample :: "np_float \<Rightarrow> np_float" where
  "clip_sample v = (if np_less v (Finite (- 0.1)) then Finite 0 else v)"

record analysis =
  r_time :: "np_float list"
  r_voltage_offset :: real
  r_voltage :: "np_float list"
  r_voltage_smooth :: "np_float list"
  r_current :: "np_float list"
  r_current_smooth :: "np_float list"

text \<open>
  Lines 96-117 of \<open>plot_voltage_and_current\<close>, from the arrays \<open>read_tek_csv\<close> returned to
  the four series that are plotted. \<open>voltage\<close> is rebound twice in the source: after the
  offset and after the clipping; \<open>current\<close> is computed from the clipped \<open>voltage\<close>, not
  from \<open>voltage_smooth\<close>.
\<close>

definition transform ::
  "string \<Rightarrow> real \<Rightarrow> np_float list \<Rightarrow> np_float list \<Rightarrow> py_error + analysis" where
  "transform filename sensitivity_mv_per_a time voltage0 =
     (let voltage_offset = voltage_offset_of filename;
          voltage1 = map (\<lambda>v. np_sub v (Finite voltage_offset)) voltage0;
          voltage = map clip_sample voltage1
      in case smooth_data voltage 11 of
           Inl e \<Rightarrow> Inl e
         | Inr voltage_smooth \<Rightarrow>
             (let sensitivity_v_per_a = sensitivity_mv_per_a / 1000;
                  current = map (\<lambda>v. np_div v (Finite sensitivity_v_per_a)) voltage
              in case smooth_data current 11 of
                   Inl e \<Rightarrow> Inl e
                 | Inr current_smooth \<Rightarrow>
                     Inr \<lparr>r_time = time, r_voltage_offset = voltage_offset,
                          r_voltage = voltage, r_voltage_smooth = voltage_smooth,
                          r_current = current, r_current_smooth = current_smooth\<rparr>))"

subsection \<open>The command line: \<open>generate_all_plots\<close> and \<open>main\<close>\<close>

text \<open>
  The two drivers are modelled over their effects. A run produces a trace of events:
  a line printed, the prompt of \<open>input()\<close>, and a call of \<open>plot_voltage_and_current\<close> with
  its arguments. The plotting function is a parameter: in a given environment a call
  returns, raises an instance of \<open>Exception\<close> (with the text \<open>str(e)\<close>), or raises
  something \<open>except Exception\<close> does not catch, such as KeyboardInterrupt.
\<close>

record plot_args =
  arg_filename :: string
  arg_sensitivity_mv_per_a :: real
  arg_time_min :: "real option"
  arg_time_max :: "real option"
  arg_output_filename :: "string option"
  arg_show_smoothed :: bool

datatype event = Print string | Input string | PlotCall plot_args

datatype outcome = Returned | RaisedException string | RaisedBaseException

text \<open>
  The environment of a run: the directory of the script, which paths exist, what
  \<open>os.listdir\<close> returns (or the text of the OSError it raises), the line typed at the prompt
  (None at end of input), and \<open>int(s)\<close> on a string (None when it raises ValueError).
\<close>

record env =
  script_dir :: string
  path_exists :: "string \<Rightarrow> bool"
  listdir :: "string \<Rightarrow> string + string list"
  stdin_line :: "string option"
  py_int :: "string \<Rightarrow> int option"

fun str_nat :: "nat \<Rightarrow> string" where
  "str_nat n =
     (if n < 10 then [char_of (48 + n)]
      else str_nat (n div 10) @ [char_of (48 + n mod 10)])"

text \<open>\<open>xs[i]\<close> for a Python int: a negative index counts from the end.\<close>

definition py_index :: "'a list \<Rightarrow> int \<Rightarrow> py_error + 'a" where
  "py_index xs i =
     (if 0 \<le> i \<and> i < int (length xs) then Inr (xs ! nat i)
      else if i < 0 \<and> - int (length xs) \<le> i then Inr (xs ! nat (int (length xs) + i))
      else Inl IndexError)"

text \<open>
  \<open>s.lower()\<close> on the ASCII letters. The result is only compared with \<open>'all'\<close>, and no
  character outside ASCII has \<open>a\<close> or \<open>l\<close> as its lower case.
\<close>

definition lower_char :: "char \<Rightarrow> char" where
  "lower_char c =
     (if 65 \<le> (of_char c :: nat) \<and> (of_char c :: nat) \<le> 90 then char_of (of_char c + 32 :: nat)
      else c)"

definition lower :: "string \<Rightarrow> string" where
  "lower s = map lower_char s"

definition csv_files_of :: "string list \<Rightarrow> string list" where
  "csv_files_of names = sort (filter (\<lambda>f. endswith f ''.CSV'') names)"

text \<open>
  Lines 225-233, the loop of \<open>generate_all_plots\<close> over \<open>enumerate(csv_files)\<close>. \<open>args\<close> holds
  the arguments passed through to every call; the file name is set per file.
\<close>

fun plot_each ::
  "(plot_args \<Rightarrow> outcome) \<Rightarrow> plot_args \<Rightarrow> string \<Rightarrow> nat \<Rightarrow> (nat \<times> string) list \<Rightarrow>
     event list \<Rightarrow> outcome \<times> event list" where
  "plot_each plot args dir n [] tr = (Returned, tr)"
| "plot_each plot args dir n ((i, csv_file) # rest) tr =
     (let filename = os_path_join dir [csv_file];
          call = args\<lparr>arg_filename := filename\<rparr>;
          tr1 = tr @ [Print (''\<newline>Processing '' @ str_nat (i + 1) @ ''/'' @ str_nat n @ '': ''
                        @ csv_file),
                      PlotCall call]
      in case plot call of
           Returned \<Rightarrow> plot_each plot args dir n rest tr1
         | RaisedException e \<Rightarrow>
             plot_each plot args dir n rest
               (tr1 @ [Print (''Error processing '' @ csv_file @ '': '' @ e)])
         | RaisedBaseException \<Rightarrow> (RaisedBaseException, tr1))"

definition generate_all_plots ::
  "env \<Rightarrow> (plot_args \<Rightarrow> outcome) \<Rightarrow> plot_args \<Rightarrow> outcome \<times> event list" where
  "generate_all_plots e plot args =
     (let oscilloscope_data_dir = os_path_join (script_dir e) [''Oscilloscope-Data''] in
      if \<not> path_exists e oscilloscope_data_dir then
        (Returned,
         [Print (''Error: Oscilloscope-Data folder not found at '' @ oscilloscope_data_dir)])
      else
        case listdir e oscilloscope_data_dir of
          Inl msg \<Rightarrow> (RaisedException msg, [])
        | Inr names \<Rightarrow>
            (let csv_files = csv_files_of names in
             if csv_files = [] then
               (Returned, [Print ''No CSV files found in Oscilloscope-Data folder.''])
             else
               (case plot_each plot args oscilloscope_data_dir (length csv_files)
                       (enumerate 0 csv_files)
                       [Print (''Found '' @ str_nat (length csv_files)
                                 @ '' CSV files. Generating plots...'')] of
                  (Returned, tr) \<Rightarrow>
                    (Returned,
                     tr @ [Print (''\<newline>Completed processing all ''
                                    @ str_nat (length csv_files) @ '' files.'')])
                | (r, tr) \<Rightarrow> (r, tr))))"

text \<open>The default arguments of \<open>plot_voltage_and_current\<close> and of \<open>generate_all_plots\<close>.\<close>

definition default_args :: plot_args where
  "default_args =
     \<lparr>arg_filename = [], arg_sensitivity_mv_per_a = 200, arg_time_min = None,
      arg_time_max = None, arg_output_filename = None, arg_show_smoothed = True\<rparr>"

text \<open>Lines 267-276 of \<open>main\<close>: the final existence check and the call.\<close>

definition check_and_plot ::
  "env \<Rightarrow> (plot_args \<Rightarrow> outcome) \<Rightarrow> string \<Rightarrow> event list \<Rightarrow> outcome \<times> event list" where
  "check_and_plot e plot filename tr =
     (if \<not> path_exists e filename then
        (Returned, tr @ [Print (''Error: File '' @ [CHR 0x27] @ filename @ [CHR 0x27]
                                  @ '' not found.'')])
      else
        (let sensitivity = 200;
             call = default_args\<lparr>arg_filename := filename, arg_sensitivity_mv_per_a := sensitivity\<rparr>
         in (plot call, tr @ [PlotCall call])))"

text \<open>\<open>main\<close>; \<open>argv\<close> is \<open>sys.argv\<close>.\<close>

definition main :: "env \<Rightarrow> (plot_args \<Rightarrow> outcome) \<Rightarrow> string list \<Rightarrow> outcome \<times> event list" where
  "main e plot argv =
     (if length argv > 1 then
        (if lower (argv ! 1) = ''all'' then generate_all_plots e plot default_args
         else
           (let filename = (if endswith (argv ! 1) ''.CSV'' then argv ! 1 else argv ! 1 @ ''.CSV'');
                filename = os_path_join (script_dir e) [''Oscilloscope-Data'', filename]
            in check_and_plot e plot filename []))
      else
        (let oscilloscope_data_dir = os_path_join (script_dir e) [''Oscilloscope-Data''];
             tr0 = [Print ''Available CSV files:'']
         in case listdir e oscilloscope_data_dir of
              Inl msg \<Rightarrow> (RaisedException msg, tr0)
            | Inr names \<Rightarrow>
                (let csv_files = csv_files_of names;
                     tr1 = tr0 @ map (\<lambda>(i, file). Print (str_nat i @ '': '' @ file))
                                   (enumerate 0 csv_files)
                             @ [Input ''\<newline>Enter the number of the file to plot: '']
                 in case stdin_line e of
                      None \<Rightarrow> (RaisedException ''EOF when reading a line'', tr1)
                    | Some s \<Rightarrow>
                        (case py_int e s of
                           None \<Rightarrow> (Returned, tr1 @ [Print ''Invalid selection. Exiting.''])
                         | Some choice \<Rightarrow>
                             (case py_index csv_files choice of
                                Inl err \<Rightarrow>
                                  (Returned, tr1 @ [Print ''Invalid selection. Exiting.''])
                              | Inr file \<Rightarrow>
                                  check_and_plot e plot
                                    (os_path_join oscilloscope_data_dir [file]) tr1)))))"

text \<open>
  What a trace is read for: the calls of \<open>plot_voltage_and_current\<close> it holds, in order, and
  the events one file of the batch is said to produce: its progress line, the call, and
  the error line when, and only when, the call raised an exception.
\<close>

definition plot_calls :: "event list \<Rightarrow> plot_args list" where
  "plot_calls tr = concat (map (\<lambda>ev. case ev of PlotCall a \<Rightarrow> [a] | _ \<Rightarrow> []) tr)"

definition file_events ::
  "(plot_args \<Rightarrow> outcome) \<Rightarrow> plot_args \<Rightarrow> string \<Rightarrow> nat \<Rightarrow> nat \<times> string \<Rightarrow> event list" where
  "file_events plot args dir n p =
     [Print (''\<newline>Processing '' @ str_nat (fst p + 1) @ ''/'' @ str_nat n @ '': '' @ snd p),
      PlotCall (args\<lparr>arg_filename := os_path_join dir [snd p]\<rparr>)]
     @ (case plot (args\<lparr>arg_filename := os_path_join dir [snd p]\<rparr>) of
          RaisedException msg \<Rightarrow> [Print (''Error processing '' @ snd p @ '': '' @ msg)]
        | _ \<Rightarrow> [])"

section \<open>Properties\<close>

subsection \<open>\<open>smooth_data\<close>\<close>

lemma length_np_convolve_same:
  "np_convolve_same a v = Inr r \<Longrightarrow> length r = max (length a) (length v)"
  by (auto simp: np_convolve_same_def Let_def split: if_splits)

lemma length_py_slice_strip:
  "0 < p \<Longrightarrow> length xs = n + 2 * p \<Longrightarrow> length (py_slice xs (int p) (- int p)) = n"
  by (simp add: py_slice_def slice_bound_def Let_def)

lemma uniform_kernel:
  "w \<noteq> 0 \<Longrightarrow>
   map (\<lambda>x. np_div x (Finite (real_of_int w))) (replicate (nat w) (Finite 1)) =
     replicate (nat w) (Finite (1 / real_of_int w))"
  by simp

text \<open>
  The path through \<open>smooth_data\<close> for a window of at least two samples and an input that is
  at least as long: no step raises, padding adds \<open>window_size div 2\<close> samples at each end, and
  the convolution keeps the padded length.
\<close>

lemma smooth_data_steps:
  assumes "2 \<le> w" and "w \<le> int (length data)"
  shows "\<exists>padded smoothed.
           np_pad_edge data (w div 2) = Inr padded \<and>
           length padded = length data + 2 * nat (w div 2) \<and>
           np_convolve_same padded (replicate (nat w) (Finite (1 / real_of_int w))) = Inr smoothed \<and>
           length smoothed = length padded \<and>
           smooth_data data w = Inr (py_slice smoothed (w div 2) (- (w div 2)))"
proof -
  from assms have ne: "data \<noteq> []" by auto
  from assms have p: "0 < w div 2" by simp
  from assms have w0: "w \<noteq> 0" by simp
  define padded where
    "padded = replicate (nat (w div 2)) (hd data) @ data @ replicate (nat (w div 2)) (last data)"
  have pad: "np_pad_edge data (w div 2) = Inr padded"
    using ne p by (simp add: np_pad_edge_def padded_def)
  have lp: "length padded = length data + 2 * nat (w div 2)"
    by (simp add: padded_def)
  have pne: "padded \<noteq> []" using ne by (simp add: padded_def)
  have kne: "replicate (nat w) (Finite (1 / real_of_int w)) \<noteq> []" using assms by simp
  obtain smoothed where
    conv: "np_convolve_same padded (replicate (nat w) (Finite (1 / real_of_int w))) = Inr smoothed"
    using pne kne by (auto simp: np_convolve_same_def Let_def)
  have "length smoothed = max (length padded) (nat w)"
    using length_np_convolve_same [OF conv] by simp
  also have "\<dots> = length padded" using assms lp by simp
  finally have ls: "length smoothed = length padded" .
  have "smooth_data data w = Inr (py_slice smoothed (w div 2) (- (w div 2)))"
    using assms pad conv
    by (simp add: smooth_data_def np_ones_def Let_def uniform_kernel [OF w0])
  with pad lp conv ls show ?thesis by blast
qed

lemma smooth_data_length_general:
  assumes "2 \<le> w"
  shows "\<exists>out. smooth_data data w = Inr out \<and> length out = length data"
proof (cases "int (length data) < w")
  case True
  then show ?thesis by (simp add: smooth_data_def)
next
  case False
  then have "w \<le> int (length data)" by simp
  from smooth_data_steps [OF assms this] obtain padded :: "np_float list" and smoothed where
    h: "length padded = length data + 2 * nat (w div 2)"
       "length smoothed = length padded"
       "smooth_data data w = Inr (py_slice smoothed (w div 2) (- (w div 2)))"
    by blast
  from assms have p: "0 < nat (w div 2)" and e: "int (nat (w div 2)) = w div 2" by simp_all
  have "length (py_slice smoothed (int (nat (w div 2))) (- int (nat (w div 2)))) = length data"
    using p by (rule length_py_slice_strip) (simp add: h)
  with h e show ?thesis by simp
qed

text \<open>
  The bound on the window matters: for a window of one sample the padding width is 0 and
  the slice \<open>[0:-0]\<close> is empty, so the result has no samples.
\<close>

lemma smooth_data_window_1: "data \<noteq> [] \<Longrightarrow> smooth_data data 1 = Inr []"
  by (auto simp: smooth_data_def np_pad_edge_def np_ones_def np_convolve_same_def
      py_slice_def slice_bound_def Let_def)

text \<open>
  Claim C1. With the default window of 11 samples, \<open>smooth_data\<close> returns an array of the
  length of its input, for every input. An input shorter than the window is returned as
  it is. Otherwise the input is padded by 5 samples at each edge, the padded array is
  convolved with the uniform kernel in mode 'same', which keeps the padded length, and
  the slice \<open>[5:-5]\<close> strips the padding again.
\<close>

theorem smooth_data_length:
  "\<exists>out. smooth_data data 11 = Inr out \<and> length out = length data \<and>
     (if length data < 11 then out = data
      else \<exists>padded smoothed.
             np_pad_edge data 5 = Inr padded \<and>
             length padded = length data + 10 \<and>
             np_convolve_same padded (replicate 11 (Finite (1 / 11))) = Inr smoothed \<and>
             length smoothed = length padded \<and>
             out = py_slice smoothed 5 (- 5))"
proof (cases "length data < 11")
  case True
  then show ?thesis by (simp add: smooth_data_def)
next
  case False
  then have "(2::int) \<le> 11" and "11 \<le> int (length data)" by simp_all
  from smooth_data_steps [OF this] obtain padded smoothed where
    h: "np_pad_edge data 5 = Inr padded" "length padded = length data + 10"
       "np_convolve_same padded (replicate 11 (Finite (1 / 11))) = Inr smoothed"
       "length smoothed = length padded"
       "smooth_data data 11 = Inr (py_slice smoothed 5 (- 5))"
    by auto
  have "length (py_slice smoothed (int 5) (- int 5)) = length data"
    by (rule length_py_slice_strip) (simp_all add: h)
  then have "length (py_slice smoothed 5 (- 5)) = length data" by simp
  with False h show ?thesis by auto
qed

text \<open>
  Claim C10. An input strictly shorter than the window is returned unchanged: no padding,
  no convolution.
\<close>

theorem smooth_data_short_identity:
  "int (length data) < window_size \<Longrightarrow> smooth_data data window_size = Inr data"
  by (simp add: smooth_data_def)

theorem smooth_data_short_identity_witness:
  "int (length [Finite 1, Finite 2, NaN]) < 11 \<and>
   smooth_data [Finite 1, Finite 2, NaN] 11 = Inr [Finite 1, Finite 2, NaN]"
  using smooth_data_short_identity [of "[Finite 1, Finite 2, NaN]" 11] by simp

subsection \<open>\<open>read_tek_csv\<close>\<close>

lemma read_row_lengths:
  "read_row float st line = Inr st' \<Longrightarrow> length (fst st) = length (snd st) \<Longrightarrow>
     length (fst st') = length (snd st')"
  by (auto simp: read_row_def Let_def split: if_splits sum.splits prod.splits)

lemma read_rows_lengths:
  "read_rows float lines st = Inr st' \<Longrightarrow> length (fst st) = length (snd st) \<Longrightarrow>
     length (fst st') = length (snd st')"
proof (induction lines arbitrary: st)
  case Nil
  then show ?case by simp
next
  case (Cons line lines)
  from Cons.prems(1) obtain st1 where
    s1: "read_row float st line = Inr st1" and s2: "read_rows float lines st1 = Inr st'"
    by (auto split: sum.splits)
  from read_row_lengths [OF s1 Cons.prems(2)] have "length (fst st1) = length (snd st1)" .
  with Cons.IH [OF s2] show ?case .
qed

text \<open>
  Claim C9. The time array and the voltage array returned by \<open>read_tek_csv\<close> have the same
  length: each row appends to both or to neither, because both columns are parsed before
  the first append.
\<close>

theorem read_tek_csv_equal_lengths:
  "read_tek_csv decode float fs filename = Inr (time_data, voltage_data) \<Longrightarrow>
     length time_data = length voltage_data"
proof -
  assume r: "read_tek_csv decode float fs filename = Inr (time_data, voltage_data)"
  then obtain lines where "read_rows float lines ([], []) = Inr (time_data, voltage_data)"
    by (auto simp: read_tek_csv_def split: sum.splits)
  from read_rows_lengths [OF this] show ?thesis by simp
qed

theorem read_tek_csv_equal_lengths_witness:
  "read_tek_csv utf8_decode (\<lambda>s. if s = str ''1'' then Inr (1::real) else Inl ValueError)
      (\<lambda>p. if p = ''f'' then Inr '',,,1,1\<newline>,,,1,x\<newline>,,,x,1\<newline>'' else Inl FileNotFoundError) ''f''
     = Inr ([1], [1])
   \<and> length [1::real] = length [1::real]"
proof -
  have r: "read_tek_csv utf8_decode (\<lambda>s. if s = str ''1'' then Inr (1::real) else Inl ValueError)
      (\<lambda>p. if p = ''f'' then Inr '',,,1,1\<newline>,,,1,x\<newline>,,,x,1\<newline>'' else Inl FileNotFoundError) ''f''
     = Inr ([1], [1])"
    by code_simp
  from read_tek_csv_equal_lengths [OF r] r show ?thesis by simp
qed

lemma parse_row_ok:
  assumes "5 \<le> length parts"
  shows "parse_row float parts =
           (case float (parts ! 3) of
              Inl e \<Rightarrow> Inl e
            | Inr t \<Rightarrow> (case float (parts ! 4) of Inl e \<Rightarrow> Inl e | Inr v \<Rightarrow> Inr (t, v)))"
  using assms by (simp add: parse_row_def list_get_def split: sum.splits)

lemma read_row_fields:
  "read_row float st line =
     (if length (csv_fields line) \<ge> 5 then
        (case parse_row float (csv_fields line) of
           Inr (time_val, voltage_val) \<Rightarrow> Inr (fst st @ [time_val], snd st @ [voltage_val])
         | Inl e \<Rightarrow> if is_ValueError e \<or> e = IndexError then Inr st else Inl e)
      else Inr st)"
  by (simp add: read_row_def csv_fields_def Let_def)

lemma read_row_spec:
  assumes only: "raises_only_ValueError float"
  shows "read_row float st line =
           Inr (if row_parses float line
                then (fst st @ [time_of float line], snd st @ [voltage_of float line])
                else st)"
proof (cases "5 \<le> length (csv_fields line)")
  case False
  then show ?thesis by (simp add: read_row_fields row_parses_def)
next
  case True
  note pr = parse_row_ok [OF True, of float]
  show ?thesis
  proof (cases "float (csv_fields line ! 3)")
    case (Inl e)
    with only have "e = ValueError" by (simp add: raises_only_ValueError_def)
    with Inl True pr show ?thesis
      by (simp add: read_row_fields row_parses_def is_ValueError_def)
  next
    case t: (Inr t)
    show ?thesis
    proof (cases "float (csv_fields line ! 4)")
      case (Inl e)
      with only have "e = ValueError" by (simp add: raises_only_ValueError_def)
      with Inl t True pr show ?thesis
        by (simp add: read_row_fields row_parses_def is_ValueError_def)
    next
      case (Inr v)
      with t True pr show ?thesis
        by (simp add: read_row_fields row_parses_def time_of_def voltage_of_def)
    qed
  qed
qed

lemma read_rows_spec:
  assumes only: "raises_only_ValueError float"
  shows "read_rows float lines st =
           Inr (fst st @ map (time_of float) (filter (row_parses float) lines),
                snd st @ map (voltage_of float) (filter (row_parses float) lines))"
proof (induction lines arbitrary: st)
  case Nil
  then show ?case by simp
next
  case (Cons line lines)
  show ?case
    by (simp add: read_row_spec [OF only] Cons.IH)
qed

text \<open>
  Claim C6 as stated, for every input file, fails on a file that holds a byte the text
  encoding cannot decode: \<open>readlines()\<close> raises UnicodeDecodeError before any row is looked
  at. The file below opens, and its only row has five fields of which the fourth and the
  fifth parse; its first field holds the byte B5 (the micro sign of Latin-1), which is
  not UTF-8.
\<close>

theorem read_tek_csv_undecodable_counterexample:
  "read_tek_csv utf8_decode
     (\<lambda>s. if s = str ''0.5'' then Inr (0.5::real) else if s = str ''2'' then Inr 2
          else Inl ValueError)
     (\<lambda>p. if p = ''TEK0001.CSV'' then Inr (''CH1 ('' @ [CHR 0xB5] @ ''V),,,0.5,2\<newline>'')
          else Inl FileNotFoundError)
     ''TEK0001.CSV''
   = Inl UnicodeDecodeError"
  by code_simp

text \<open>
  Claim C6, amended. For every file that can be opened and whose bytes the text encoding
  decodes, \<open>read_tek_csv\<close> does not raise, whatever the rows hold: it returns, in file
  order, the values of exactly the rows with at least five comma-separated fields whose
  fields 3 and 4 (counted from 0: time, then voltage) both parse as floats, and skips
  every other row. \<open>float\<close> on a string raises nothing but ValueError.
\<close>

theorem read_tek_csv_rows:
  assumes "raises_only_ValueError float"
    and "fs filename = Inr bytes"
    and "decode bytes = Inr content"
  shows "read_tek_csv decode float fs filename =
           Inr (map (time_of float) (filter (row_parses float) (readlines content)),
                map (voltage_of float) (filter (row_parses float) (readlines content)))"
  using assms(2,3) by (simp add: read_tek_csv_def read_rows_spec [OF assms(1)])

theorem read_tek_csv_rows_witness:
  "read_tek_csv utf8_decode
     (\<lambda>s. if s = str ''1.5'' then Inr (1.5::real) else if s = str ''2'' then Inr 2
          else Inl ValueError)
     (\<lambda>p. if p = ''f'' then
            Inr (''CH1 ('' @ [CHR 0xC2, CHR 0xB5] @ ''V),b,c,1.5,2'' @ [CHR 0x0D]
                 @ ''\<newline>x,y\<newline>,,,1.5,oops\<newline> h,,,2,1.5,z \<newline>1.5,2'')
          else Inl FileNotFoundError) ''f''
   = Inr ([1.5, 2], [2, 1.5])"
proof -
  let ?float = "\<lambda>s. if s = str ''1.5'' then Inr (1.5::real) else if s = str ''2'' then Inr 2
                    else Inl ValueError"
  let ?bytes = "''CH1 ('' @ [CHR 0xC2, CHR 0xB5] @ ''V),b,c,1.5,2'' @ [CHR 0x0D]
                 @ ''\<newline>x,y\<newline>,,,1.5,oops\<newline> h,,,2,1.5,z \<newline>1.5,2''"
  let ?fs = "\<lambda>p. if p = ''f'' then Inr ?bytes else Inl FileNotFoundError"
  let ?content = "str (''CH1 ('' @ [CHR 0xB5] @ ''V),b,c,1.5,2'' @ [CHR 0x0D]
                 @ ''\<newline>x,y\<newline>,,,1.5,oops\<newline> h,,,2,1.5,z \<newline>1.5,2'')"
  have h1: "raises_only_ValueError ?float"
    by (simp add: raises_only_ValueError_def split: if_splits)
  have h2: "?fs ''f'' = Inr ?bytes" by simp
  have h3: "utf8_decode ?bytes = Inr ?content" by code_simp
  have e: "(map (time_of ?float) (filter (row_parses ?float) (readlines ?content)),
            map (voltage_of ?float) (filter (row_parses ?float) (readlines ?content)))
           = ([1.5, 2], [2, 1.5])"
    by code_simp
  show ?thesis
    using read_tek_csv_rows [of ?float ?fs "''f''" ?bytes utf8_decode ?content, OF h1 h2 h3] e
    by simp
qed

subsection \<open>The numeric transform\<close>

lemma smooth_data_11_total: "\<exists>out. smooth_data data 11 = Inr out \<and> length out = length data"
  by (rule smooth_data_length_general) simp

lemma transform_result:
  "\<exists>a. transform filename s time voltage0 = Inr a \<and>
       r_time a = time \<and>
       r_voltage_offset a = voltage_offset_of filename \<and>
       r_voltage a =
         map clip_sample (map (\<lambda>v. np_sub v (Finite (voltage_offset_of filename))) voltage0) \<and>
       smooth_data (r_voltage a) 11 = Inr (r_voltage_smooth a) \<and>
       r_current a = map (\<lambda>v. np_div v (Finite (s / 1000))) (r_voltage a) \<and>
       smooth_data (r_current a) 11 = Inr (r_current_smooth a)"
proof -
  define voltage where
    "voltage =
       map clip_sample (map (\<lambda>v. np_sub v (Finite (voltage_offset_of filename))) voltage0)"
  define current where "current = map (\<lambda>v. np_div v (Finite (s / 1000))) voltage"
  obtain voltage_smooth where vs: "smooth_data voltage 11 = Inr voltage_smooth"
    using smooth_data_11_total [of voltage] by blast
  obtain current_smooth where cs: "smooth_data current 11 = Inr current_smooth"
    using smooth_data_11_total [of current] by blast
  have "transform filename s time voltage0 =
          Inr \<lparr>r_time = time, r_voltage_offset = voltage_offset_of filename,
               r_voltage = voltage, r_voltage_smooth = voltage_smooth,
               r_current = current, r_current_smooth = current_smooth\<rparr>"
    using vs cs by (simp add: transform_def Let_def voltage_def current_def)
  then show ?thesis
    using vs cs by (simp add: voltage_def current_def)
qed

text \<open>
  Claim C2. The voltage after offset correction and clipping is what the transform keeps
  as the raw voltage, and for every sensitivity \<open>s\<close> in mV/A the raw current is that
  voltage divided, sample by sample, by \<open>s / 1000\<close>, the sensitivity in V/A. For a finite
  sample and a sensitivity other than zero this is the quotient of the two numbers; for
  a sensitivity of zero the division is numpy's, which gives an infinity or NaN.
\<close>

theorem current_is_voltage_over_sensitivity:
  "\<exists>a. transform filename s time voltage0 = Inr a \<and>
       r_voltage a =
         map clip_sample (map (\<lambda>v. np_sub v (Finite (voltage_offset_of filename))) voltage0) \<and>
       length (r_current a) = length voltage0 \<and>
       r_current a = map (\<lambda>v. np_div v (Finite (s / 1000))) (r_voltage a) \<and>
       (\<forall>i < length voltage0. r_current a ! i = np_div (r_voltage a ! i) (Finite (s / 1000))) \<and>
       (\<forall>i < length voltage0. \<forall>v. r_voltage a ! i = Finite v \<and> s \<noteq> 0 \<longrightarrow>
          r_current a ! i = Finite (v / (s / 1000)))"
proof -
  obtain a where
    a: "transform filename s time voltage0 = Inr a"
       "r_voltage a =
          map clip_sample (map (\<lambda>v. np_sub v (Finite (voltage_offset_of filename))) voltage0)"
       "r_current a = map (\<lambda>v. np_div v (Finite (s / 1000))) (r_voltage a)"
    using transform_result [of filename s time voltage0] by blast
  have len: "length (r_voltage a) = length voltage0" by (simp add: a(2))
  have idx: "\<forall>i < length voltage0. r_current a ! i = np_div (r_voltage a ! i) (Finite (s / 1000))"
    using len by (simp add: a(3))
  have fin: "\<forall>i < length voltage0. \<forall>v. r_voltage a ! i = Finite v \<and> s \<noteq> 0 \<longrightarrow>
          r_current a ! i = Finite (v / (s / 1000))"
    using idx by simp
  have "length (r_current a) = length voltage0" using len by (simp add: a(3))
  with a idx fin show ?thesis by blast
qed

theorem current_is_voltage_over_sensitivity_witness:
  "(\<exists>a. transform ''TEK0008.CSV'' 200 [] [Finite 2.67, Finite 1.67, Finite 1.5, NaN] = Inr a \<and>
        r_voltage a = [Finite 1, Finite 0, Finite 0, NaN] \<and>
        r_current a = [Finite 5, Finite 0, Finite 0, NaN]) \<and>
   (\<exists>a. transform ''TEK0008.CSV'' 0 [] [Finite 2.67, Finite 1.67, Finite 1.5, NaN] = Inr a \<and>
        r_voltage a = [Finite 1, Finite 0, Finite 0, NaN] \<and>
        r_current a = [PosInf, NaN, NaN, NaN])"
proof -
  let ?v0 = "[Finite 2.67, Finite 1.67, Finite 1.5, NaN]"
  have v: "map clip_sample (map (\<lambda>v. np_sub v (Finite (voltage_offset_of ''TEK0008.CSV''))) ?v0)
           = [Finite 1, Finite 0, Finite 0, NaN]"
    by code_simp
  have c200: "map (\<lambda>v. np_div v (Finite (200 / 1000))) [Finite 1, Finite 0, Finite 0, NaN]
              = [Finite 5, Finite 0, Finite 0, NaN]"
    by code_simp
  have c0: "map (\<lambda>v. np_div v (Finite (0 / 1000))) [Finite 1, Finite 0, Finite 0, NaN]
              = [PosInf, NaN, NaN, NaN]"
    by code_simp
  from current_is_voltage_over_sensitivity [of "''TEK0008.CSV''" 200 "[]" ?v0]
  obtain a where a: "transform ''TEK0008.CSV'' 200 [] ?v0 = Inr a"
    "r_voltage a =
       map clip_sample (map (\<lambda>v. np_sub v (Finite (voltage_offset_of ''TEK0008.CSV''))) ?v0)"
    "r_current a = map (\<lambda>v. np_div v (Finite (200 / 1000))) (r_voltage a)"
    by blast
  from a(2) v have av: "r_voltage a = [Finite 1, Finite 0, Finite 0, NaN]" by (simp only:)
  from a(3) av c200 have ac: "r_current a = [Finite 5, Finite 0, Finite 0, NaN]" by (simp only:)
  from current_is_voltage_over_sensitivity [of "''TEK0008.CSV''" 0 "[]" ?v0]
  obtain b where b: "transform ''TEK0008.CSV'' 0 [] ?v0 = Inr b"
    "r_voltage b =
       map clip_sample (map (\<lambda>v. np_sub v (Finite (voltage_offset_of ''TEK0008.CSV''))) ?v0)"
    "r_current b = map (\<lambda>v. np_div v (Finite (0 / 1000))) (r_voltage b)"
    by blast
  from b(2) v have bv: "r_voltage b = [Finite 1, Finite 0, Finite 0, NaN]" by (simp only:)
  from b(3) bv c0 have bc: "r_current b = [PosInf, NaN, NaN, NaN]" by (simp only:)
  from a(1) av ac b(1) bv bc show ?thesis by blast
qed

text \<open>
  Claim C3. After the offset correction, a sample below -0.1 V becomes 0 and every other
  sample is left as it is; so a sample in the interval from -0.1 V up to, but not
  including, 0 V stays negative. The last conjunct says this for a finite input sample
  in terms of its number.
\<close>

theorem clipping_threshold:
  "\<exists>a. transform filename s time voltage0 = Inr a \<and>
       length (r_voltage a) = length voltage0 \<and>
       (\<forall>i < length voltage0.
          (np_less (np_sub (voltage0 ! i) (Finite (voltage_offset_of filename))) (Finite (- 0.1))
             \<longrightarrow> r_voltage a ! i = Finite 0) \<and>
          (\<not> np_less (np_sub (voltage0 ! i) (Finite (voltage_offset_of filename))) (Finite (- 0.1))
             \<longrightarrow> r_voltage a ! i = np_sub (voltage0 ! i) (Finite (voltage_offset_of filename))) \<and>
          (\<forall>x. voltage0 ! i = Finite x \<longrightarrow>
             (x - voltage_offset_of filename < - 0.1 \<longrightarrow> r_voltage a ! i = Finite 0) \<and>
             (- 0.1 \<le> x - voltage_offset_of filename \<longrightarrow>
                r_voltage a ! i = Finite (x - voltage_offset_of filename)) \<and>
             (- 0.1 \<le> x - voltage_offset_of filename \<and> x - voltage_offset_of filename < 0 \<longrightarrow>
                np_less (r_voltage a ! i) (Finite 0))))"
proof -
  obtain a where
    a: "transform filename s time voltage0 = Inr a"
       "r_voltage a =
          map clip_sample (map (\<lambda>v. np_sub v (Finite (voltage_offset_of filename))) voltage0)"
    using transform_result [of filename s time voltage0] by blast
  show ?thesis
    by (rule exI [of _ a]) (simp add: a clip_sample_def np_sub_def)
qed

theorem clipping_threshold_witness:
  "\<exists>a. transform ''TEK0008.CSV'' 200 [] [Finite 1, Finite 1.62, Finite 2, NaN] = Inr a \<and>
       r_voltage a ! 0 = Finite 0 \<and> r_voltage a ! 1 = Finite (- 0.05) \<and>
       np_less (r_voltage a ! 1) (Finite 0) \<and>
       r_voltage a ! 2 = Finite 0.33 \<and> r_voltage a ! 3 = NaN"
proof -
  let ?v0 = "[Finite 1, Finite 1.62, Finite 2, NaN]"
  have off: "voltage_offset_of ''TEK0008.CSV'' = 1.67" by code_simp
  from clipping_threshold [of "''TEK0008.CSV''" 200 "[]" ?v0]
  obtain a where a: "transform ''TEK0008.CSV'' 200 [] ?v0 = Inr a"
    and c: "\<forall>i < length ?v0.
          (np_less (np_sub (?v0 ! i) (Finite (voltage_offset_of ''TEK0008.CSV''))) (Finite (- 0.1))
             \<longrightarrow> r_voltage a ! i = Finite 0) \<and>
          (\<not> np_less (np_sub (?v0 ! i) (Finite (voltage_offset_of ''TEK0008.CSV''))) (Finite (- 0.1))
             \<longrightarrow> r_voltage a ! i = np_sub (?v0 ! i) (Finite (voltage_offset_of ''TEK0008.CSV''))) \<and>
          (\<forall>x. ?v0 ! i = Finite x \<longrightarrow>
             (x - voltage_offset_of ''TEK0008.CSV'' < - 0.1 \<longrightarrow> r_voltage a ! i = Finite 0) \<and>
             (- 0.1 \<le> x - voltage_offset_of ''TEK0008.CSV'' \<longrightarrow>
                r_voltage a ! i = Finite (x - voltage_offset_of ''TEK0008.CSV'')) \<and>
             (- 0.1 \<le> x - voltage_offset_of ''TEK0008.CSV'' \<and>
              x - voltage_offset_of ''TEK0008.CSV'' < 0 \<longrightarrow>
                np_less (r_voltage a ! i) (Finite 0)))"
    by blast
  have i0: "(0::nat) < length ?v0" and i1: "(1::nat) < length ?v0"
    and i2: "(2::nat) < length ?v0" and i3: "(3::nat) < length ?v0"
    by simp_all
  have z0: "r_voltage a ! 0 = Finite 0"
    using c [rule_format, OF i0, THEN conjunct2, THEN conjunct2, THEN spec, of 1] by (simp add: off)
  have z1: "r_voltage a ! 1 = Finite (- 0.05)" and n1: "np_less (r_voltage a ! 1) (Finite 0)"
    using c [rule_format, OF i1, THEN conjunct2, THEN conjunct2, THEN spec, of "1.62"]
    by (simp_all add: off)
  have z2: "r_voltage a ! 2 = Finite 0.33"
    using c [rule_format, OF i2, THEN conjunct2, THEN conjunct2, THEN spec, of 2] by (simp add: off)
  have z3: "r_voltage a ! 3 = NaN"
    using c [rule_format, OF i3, THEN conjunct2, THEN conjunct1] by (simp add: np_sub_def)
  from a z0 z1 n1 z2 z3 show ?thesis by blast
qed



text \<open>
  Claim C4. The claim, like the comment on line 113, has the current computed from the
  smoothed voltage; line 114 divides the clipped, unsmoothed voltage. On a capture with
  one sample 1 V above the offset followed by eleven samples at the offset, at 200 mV/A,
  the first smoothed voltage is 6/11 V, whose conversion would be 30/11 A, and the first
  current the code computes is 5 A.
\<close>

theorem current_uses_unsmoothed_voltage:
  "r_voltage_smooth (projr (transform ''TEK0008.CSV'' 200
      (map Finite [0, 1, 2, 3, 4, 5, 6, 7, 8, 9, 10, 11])
      (map Finite [2.67, 1.67, 1.67, 1.67, 1.67, 1.67, 1.67, 1.67, 1.67, 1.67, 1.67, 1.67]))) ! 0
     = Finite (6 / 11) \<and>
   np_div (Finite (6 / 11)) (Finite (200 / 1000)) = Finite (30 / 11) \<and>
   r_current (projr (transform ''TEK0008.CSV'' 200
      (map Finite [0, 1, 2, 3, 4, 5, 6, 7, 8, 9, 10, 11])
      (map Finite [2.67, 1.67, 1.67, 1.67, 1.67, 1.67, 1.67, 1.67, 1.67, 1.67, 1.67, 1.67]))) ! 0
     = Finite 5 \<and>
   r_current (projr (transform ''TEK0008.CSV'' 200
      (map Finite [0, 1, 2, 3, 4, 5, 6, 7, 8, 9, 10, 11])
      (map Finite [2.67, 1.67, 1.67, 1.67, 1.67, 1.67, 1.67, 1.67, 1.67, 1.67, 1.67, 1.67])))
     \<noteq> map (\<lambda>v. np_div v (Finite (200 / 1000)))
          (r_voltage_smooth (projr (transform ''TEK0008.CSV'' 200
      (map Finite [0, 1, 2, 3, 4, 5, 6, 7, 8, 9, 10, 11])
      (map Finite [2.67, 1.67, 1.67, 1.67, 1.67, 1.67, 1.67, 1.67, 1.67, 1.67, 1.67, 1.67]))))"
  by code_simp

subsection \<open>\<open>generate_all_plots\<close> and \<open>main\<close>\<close>

lemma plot_calls_append: "plot_calls (tr @ tr') = plot_calls tr @ plot_calls tr'"
  by (simp add: plot_calls_def)

lemma plot_calls_file_events:
  "plot_calls (file_events plot args dir n p) = [args\<lparr>arg_filename := os_path_join dir [snd p]\<rparr>]"
  by (cases "plot (args\<lparr>arg_filename := os_path_join dir [snd p]\<rparr>)")
    (simp_all add: plot_calls_def file_events_def)

lemma plot_calls_batch:
  "plot_calls (concat (map (file_events plot args dir n) ps)) =
     map (\<lambda>p. args\<lparr>arg_filename := os_path_join dir [snd p]\<rparr>) ps"
proof (induction ps)
  case Nil
  show ?case by (simp add: plot_calls_def)
next
  case (Cons p ps)
  then show ?case by (simp add: plot_calls_append plot_calls_file_events)
qed

lemma plot_each_trace:
  assumes "\<forall>p \<in> set ps. plot (args\<lparr>arg_filename := os_path_join dir [snd p]\<rparr>) \<noteq> RaisedBaseException"
  shows "plot_each plot args dir n ps tr =
           (Returned, tr @ concat (map (file_events plot args dir n) ps))"
  using assms
proof (induction ps arbitrary: tr)
  case Nil
  then show ?case by simp
next
  case (Cons p ps)
  obtain i csv_file where p: "p = (i, csv_file)" by (cases p)
  from Cons.prems have
    here: "plot (args\<lparr>arg_filename := os_path_join dir [csv_file]\<rparr>) \<noteq> RaisedBaseException"
    and rest: "\<forall>p \<in> set ps. plot (args\<lparr>arg_filename := os_path_join dir [snd p]\<rparr>) \<noteq> RaisedBaseException"
    by (simp_all add: p)
  show ?case
  proof (cases "plot (args\<lparr>arg_filename := os_path_join dir [csv_file]\<rparr>)")
    case Returned
    then show ?thesis
      by (simp add: p Let_def Cons.IH [OF rest] file_events_def)
  next
    case (RaisedException msg)
    then show ?thesis
      by (simp add: p Let_def Cons.IH [OF rest] file_events_def)
  next
    case RaisedBaseException
    with here show ?thesis by simp
  qed
qed

lemma map_snd_enumerate_0: "map snd (enumerate 0 xs) = xs"
  by (simp add: enumerate_eq_zip)

lemma map_snd_enumerate: "map (\<lambda>p. g (snd p)) (enumerate k xs) = map g xs"
  by (induction xs arbitrary: k) simp_all

text \<open>
  Claim C7. In a batch over a data folder with at least one CSV file, where no call
  raises anything but an instance of \<open>Exception\<close>, \<open>generate_all_plots\<close> returns normally;
  its trace is the header, then for each file of the sorted list, in order, the progress
  line, the call and, when the call raised, the error line, then the closing line. So a
  failure is caught and reported, the files after it are still processed, and every file
  is called exactly once.
\<close>

theorem generate_all_plots_catch_and_continue:
  assumes dir: "path_exists e (os_path_join (script_dir e) [''Oscilloscope-Data''])"
    and ls: "listdir e (os_path_join (script_dir e) [''Oscilloscope-Data'']) = Inr names"
    and ne: "csv_files_of names \<noteq> []"
    and exc: "\<forall>f \<in> set (csv_files_of names).
               plot (args\<lparr>arg_filename :=
                      os_path_join (os_path_join (script_dir e) [''Oscilloscope-Data'']) [f]\<rparr>)
               \<noteq> RaisedBaseException"
  shows "\<exists>tr. generate_all_plots e plot args = (Returned, tr) \<and>
           tr = [Print (''Found '' @ str_nat (length (csv_files_of names))
                          @ '' CSV files. Generating plots...'')]
                @ concat (map (file_events plot args
                                 (os_path_join (script_dir e) [''Oscilloscope-Data''])
                                 (length (csv_files_of names)))
                            (enumerate 0 (csv_files_of names)))
                @ [Print (''\<newline>Completed processing all ''
                            @ str_nat (length (csv_files_of names)) @ '' files.'')] \<and>
           plot_calls tr =
             map (\<lambda>f. args\<lparr>arg_filename :=
                          os_path_join (os_path_join (script_dir e) [''Oscilloscope-Data'']) [f]\<rparr>)
               (csv_files_of names) \<and>
           sorted (csv_files_of names) \<and>
           set (csv_files_of names) = {f \<in> set names. endswith f ''.CSV''}"
proof -
  let ?dir = "os_path_join (script_dir e) [''Oscilloscope-Data'']"
  let ?files = "csv_files_of names"
  let ?n = "length ?files"
  let ?found = "Print (''Found '' @ str_nat ?n @ '' CSV files. Generating plots...'')"
  let ?done = "Print (''\<newline>Completed processing all '' @ str_nat ?n @ '' files.'')"
  let ?mid = "concat (map (file_events plot args ?dir ?n) (enumerate 0 ?files))"
  have "\<forall>p \<in> set (enumerate 0 ?files).
          plot (args\<lparr>arg_filename := os_path_join ?dir [snd p]\<rparr>) \<noteq> RaisedBaseException"
  proof
    fix p assume "p \<in> set (enumerate 0 ?files)"
    then have "snd p \<in> snd ` set (enumerate 0 ?files)" by (rule imageI)
    then have "snd p \<in> set (map snd (enumerate 0 ?files))" by (simp only: set_map)
    then have "snd p \<in> set ?files" by (simp only: map_snd_enumerate_0)
    with exc show "plot (args\<lparr>arg_filename := os_path_join ?dir [snd p]\<rparr>) \<noteq> RaisedBaseException"
      by blast
  qed
  from plot_each_trace [OF this]
  have loop: "plot_each plot args ?dir ?n (enumerate 0 ?files) [?found] = (Returned, [?found] @ ?mid)" .
  have run: "generate_all_plots e plot args = (Returned, [?found] @ ?mid @ [?done])"
    using dir ls ne loop by (simp add: generate_all_plots_def Let_def)
  have mid: "plot_calls ?mid = map (\<lambda>f. args\<lparr>arg_filename := os_path_join ?dir [f]\<rparr>) ?files"
    unfolding plot_calls_batch by (rule map_snd_enumerate)
  have calls: "plot_calls ([?found] @ ?mid @ [?done]) =
                 map (\<lambda>f. args\<lparr>arg_filename := os_path_join ?dir [f]\<rparr>) ?files"
    unfolding plot_calls_append mid by (simp add: plot_calls_def)
  have srt: "sorted ?files" by (simp add: csv_files_of_def)
  have st: "set ?files = {f \<in> set names. endswith f ''.CSV''}"
    by (simp add: csv_files_of_def)
  from run calls srt st show ?thesis by blast
qed

theorem generate_all_plots_catch_and_continue_witness:
  "generate_all_plots
     \<lparr>script_dir = ''/d'', path_exists = (\<lambda>p. True),
      listdir = (\<lambda>p. Inr [''b.CSV'', ''a.CSV'', ''notes.txt'']),
      stdin_line = None, py_int = (\<lambda>s. None)\<rparr>
     (\<lambda>a. if arg_filename a = ''/d/Oscilloscope-Data/a.CSV'' then RaisedException ''boom''
          else Returned)
     default_args
   = (Returned,
      [Print ''Found 2 CSV files. Generating plots...'',
       Print ''\<newline>Processing 1/2: a.CSV'',
       PlotCall (default_args\<lparr>arg_filename := ''/d/Oscilloscope-Data/a.CSV''\<rparr>),
       Print ''Error processing a.CSV: boom'',
       Print ''\<newline>Processing 2/2: b.CSV'',
       PlotCall (default_args\<lparr>arg_filename := ''/d/Oscilloscope-Data/b.CSV''\<rparr>),
       Print ''\<newline>Completed processing all 2 files.''])"
proof -
  let ?e = "\<lparr>script_dir = ''/d'', path_exists = (\<lambda>p. True),
      listdir = (\<lambda>p. Inr [''b.CSV'', ''a.CSV'', ''notes.txt'']),
      stdin_line = None, py_int = (\<lambda>s. None)\<rparr>"
  let ?plot = "\<lambda>a. if arg_filename a = ''/d/Oscilloscope-Data/a.CSV''
                   then RaisedException ''boom'' else Returned"
  let ?names = "[''b.CSV'', ''a.CSV'', ''notes.txt'']"
  let ?dir = "os_path_join (script_dir ?e) [''Oscilloscope-Data'']"
  have h1: "path_exists ?e ?dir" by simp
  have h2: "listdir ?e ?dir = Inr ?names" by simp
  have h3: "csv_files_of ?names \<noteq> []" by code_simp
  have h4: "\<forall>f \<in> set (csv_files_of ?names).
              ?plot (default_args\<lparr>arg_filename := os_path_join ?dir [f]\<rparr>) \<noteq> RaisedBaseException"
    by simp
  have ev: "[Print (''Found '' @ str_nat (length (csv_files_of ?names))
                          @ '' CSV files. Generating plots...'')]
                @ concat (map (file_events ?plot default_args ?dir (length (csv_files_of ?names)))
                            (enumerate 0 (csv_files_of ?names)))
                @ [Print (''\<newline>Completed processing all ''
                            @ str_nat (length (csv_files_of ?names)) @ '' files.'')]
     = [Print ''Found 2 CSV files. Generating plots...'',
       Print ''\<newline>Processing 1/2: a.CSV'',
       PlotCall (default_args\<lparr>arg_filename := ''/d/Oscilloscope-Data/a.CSV''\<rparr>),
       Print ''Error processing a.CSV: boom'',
       Print ''\<newline>Processing 2/2: b.CSV'',
       PlotCall (default_args\<lparr>arg_filename := ''/d/Oscilloscope-Data/b.CSV''\<rparr>),
       Print ''\<newline>Completed processing all 2 files.'']"
    by code_simp
  from generate_all_plots_catch_and_continue [of ?e ?names ?plot default_args, OF h1 h2 h3 h4]
  obtain tr where "generate_all_plots ?e ?plot default_args = (Returned, tr)"
    and "tr = [Print (''Found '' @ str_nat (length (csv_files_of ?names))
                          @ '' CSV files. Generating plots...'')]
                @ concat (map (file_events ?plot default_args ?dir (length (csv_files_of ?names)))
                            (enumerate 0 (csv_files_of ?names)))
                @ [Print (''\<newline>Completed processing all ''
                            @ str_nat (length (csv_files_of ?names)) @ '' files.'')]"
    by blast
  with ev show ?thesis by (simp only:)
qed

lemma plot_calls_listing:
  "plot_calls ([Print h] @ map (\<lambda>(i, file). Print (g i file)) ps @ [Input q]) = []"
  by (induction ps) (auto simp: plot_calls_def)

lemma py_index_invalid:
  "\<not> (- int (length xs) \<le> c \<and> c < int (length xs)) \<Longrightarrow> py_index xs c = Inl IndexError"
  by (auto simp: py_index_def)

text \<open>
  Claim C8. \<open>main\<close> prints an error message and returns, without calling
  \<open>plot_voltage_and_current\<close> and without raising, in each of these cases: a file named on
  the command line (not \<open>all\<close>) whose resolved path does not exist; an interactive selection
  that \<open>int\<close> rejects or that is out of range for the listed files (a Python index, so
  \<open>-n\<close> to \<open>n - 1\<close> for \<open>n\<close> files); a valid interactive selection whose file does not
  exist.
\<close>

theorem main_bad_input_returns:
  "(length argv > 1 \<and> lower (argv ! 1) \<noteq> ''all'' \<and>
    \<not> path_exists e
        (os_path_join (script_dir e)
           [''Oscilloscope-Data'',
            if endswith (argv ! 1) ''.CSV'' then argv ! 1 else argv ! 1 @ ''.CSV''])
    \<longrightarrow> (\<exists>tr. main e plot argv = (Returned, tr) \<and> plot_calls tr = [] \<and>
              tr = [Print (''Error: File '' @ [CHR 0x27]
                            @ os_path_join (script_dir e)
                                [''Oscilloscope-Data'',
                                 if endswith (argv ! 1) ''.CSV'' then argv ! 1
                                 else argv ! 1 @ ''.CSV'']
                            @ [CHR 0x27] @ '' not found.'')])) \<and>
   (length argv \<le> 1 \<and>
    listdir e (os_path_join (script_dir e) [''Oscilloscope-Data'']) = Inr names \<and>
    stdin_line e = Some s \<and>
    (py_int e s = None \<or>
     (\<exists>c. py_int e s = Some c \<and>
          \<not> (- int (length (csv_files_of names)) \<le> c \<and> c < int (length (csv_files_of names)))))
    \<longrightarrow> (\<exists>tr. main e plot argv = (Returned, tr) \<and> plot_calls tr = [] \<and>
              tr \<noteq> [] \<and> last tr = Print ''Invalid selection. Exiting.'')) \<and>
   (length argv \<le> 1 \<and>
    listdir e (os_path_join (script_dir e) [''Oscilloscope-Data'']) = Inr names \<and>
    stdin_line e = Some s \<and> py_int e s = Some c \<and>
    py_index (csv_files_of names) c = Inr file \<and>
    \<not> path_exists e (os_path_join (os_path_join (script_dir e) [''Oscilloscope-Data'']) [file])
    \<longrightarrow> (\<exists>tr. main e plot argv = (Returned, tr) \<and> plot_calls tr = [] \<and>
              tr \<noteq> [] \<and>
              last tr = Print (''Error: File '' @ [CHR 0x27]
                        @ os_path_join (os_path_join (script_dir e) [''Oscilloscope-Data'']) [file]
                        @ [CHR 0x27] @ '' not found.'')))"
proof (intro conjI impI)
  assume a: "length argv > 1 \<and> lower (argv ! 1) \<noteq> ''all'' \<and>
    \<not> path_exists e
        (os_path_join (script_dir e)
           [''Oscilloscope-Data'',
            if endswith (argv ! 1) ''.CSV'' then argv ! 1 else argv ! 1 @ ''.CSV''])"
  then show "\<exists>tr. main e plot argv = (Returned, tr) \<and> plot_calls tr = [] \<and>
              tr = [Print (''Error: File '' @ [CHR 0x27]
                            @ os_path_join (script_dir e)
                                [''Oscilloscope-Data'',
                                 if endswith (argv ! 1) ''.CSV'' then argv ! 1
                                 else argv ! 1 @ ''.CSV'']
                            @ [CHR 0x27] @ '' not found.'')]"
    by (simp add: main_def check_and_plot_def Let_def plot_calls_def)
next
  let ?dir = "os_path_join (script_dir e) [''Oscilloscope-Data'']"
  let ?tr1 = "[Print ''Available CSV files:'']
                @ map (\<lambda>(i, file). Print (str_nat i @ '': '' @ file)) (enumerate 0 (csv_files_of names))
                @ [Input ''\<newline>Enter the number of the file to plot: '']"
  assume b: "length argv \<le> 1 \<and> listdir e ?dir = Inr names \<and> stdin_line e = Some s \<and>
    (py_int e s = None \<or>
     (\<exists>c. py_int e s = Some c \<and>
          \<not> (- int (length (csv_files_of names)) \<le> c \<and> c < int (length (csv_files_of names)))))"
  then have "main e plot argv = (Returned, ?tr1 @ [Print ''Invalid selection. Exiting.''])"
    by (auto simp: main_def Let_def py_index_invalid)
  moreover have "plot_calls (?tr1 @ [Print ''Invalid selection. Exiting.'']) = []"
    unfolding plot_calls_append [of ?tr1] plot_calls_listing by (simp add: plot_calls_def)
  ultimately show "\<exists>tr. main e plot argv = (Returned, tr) \<and> plot_calls tr = [] \<and>
              tr \<noteq> [] \<and> last tr = Print ''Invalid selection. Exiting.''"
    by simp
next
  let ?dir = "os_path_join (script_dir e) [''Oscilloscope-Data'']"
  let ?tr1 = "[Print ''Available CSV files:'']
                @ map (\<lambda>(i, file). Print (str_nat i @ '': '' @ file)) (enumerate 0 (csv_files_of names))
                @ [Input ''\<newline>Enter the number of the file to plot: '']"
  let ?msg = "Print (''Error: File '' @ [CHR 0x27] @ os_path_join ?dir [file]
                        @ [CHR 0x27] @ '' not found.'')"
  assume c: "length argv \<le> 1 \<and> listdir e ?dir = Inr names \<and>
    stdin_line e = Some s \<and> py_int e s = Some c \<and>
    py_index (csv_files_of names) c = Inr file \<and> \<not> path_exists e (os_path_join ?dir [file])"
  then have "main e plot argv = (Returned, ?tr1 @ [?msg])"
    by (simp add: main_def Let_def check_and_plot_def)
  moreover have "plot_calls (?tr1 @ [?msg]) = []"
    unfolding plot_calls_append [of ?tr1] plot_calls_listing by (simp add: plot_calls_def)
  ultimately show "\<exists>tr. main e plot argv = (Returned, tr) \<and> plot_calls tr = [] \<and>
              tr \<noteq> [] \<and> last tr = ?msg"
    by simp
qed

theorem main_bad_input_returns_witness:
  "(\<exists>tr. main \<lparr>script_dir = ''/d'', path_exists = (\<lambda>p. p = ''/d/Oscilloscope-Data/a.CSV''),
              listdir = (\<lambda>p. Inr [''b.CSV'', ''a.CSV'']), stdin_line = Some ''7'',
              py_int = (\<lambda>s. if s = ''7'' then Some 7 else if s = ''1'' then Some 1 else None)\<rparr>
            (\<lambda>a. RaisedBaseException) [''plot.py'', ''TEK0099''] = (Returned, tr) \<and>
         plot_calls tr = [] \<and>
         tr = [Print (''Error: File '' @ [CHR 0x27] @ ''/d/Oscilloscope-Data/TEK0099.CSV''
                       @ [CHR 0x27] @ '' not found.'')]) \<and>
   (\<exists>tr. main \<lparr>script_dir = ''/d'', path_exists = (\<lambda>p. p = ''/d/Oscilloscope-Data/a.CSV''),
              listdir = (\<lambda>p. Inr [''b.CSV'', ''a.CSV'']), stdin_line = Some ''7'',
              py_int = (\<lambda>s. if s = ''7'' then Some 7 else if s = ''1'' then Some 1 else None)\<rparr>
            (\<lambda>a. RaisedBaseException) [''plot.py''] = (Returned, tr) \<and>
         plot_calls tr = [] \<and> tr \<noteq> [] \<and> last tr = Print ''Invalid selection. Exiting.'') \<and>
   (\<exists>tr. main \<lparr>script_dir = ''/d'', path_exists = (\<lambda>p. p = ''/d/Oscilloscope-Data/a.CSV''),
              listdir = (\<lambda>p. Inr [''b.CSV'', ''a.CSV'']), stdin_line = Some ''1'',
              py_int = (\<lambda>s. if s = ''7'' then Some 7 else if s = ''1'' then Some 1 else None)\<rparr>
            (\<lambda>a. RaisedBaseException) [''plot.py''] = (Returned, tr) \<and>
         plot_calls tr = [] \<and> tr \<noteq> [] \<and>
         last tr = Print (''Error: File '' @ [CHR 0x27] @ ''/d/Oscilloscope-Data/b.CSV''
                           @ [CHR 0x27] @ '' not found.''))"
proof -
  let ?int = "\<lambda>s. if s = ''7'' then Some (7::int) else if s = ''1'' then Some 1 else None"
  let ?e7 = "\<lparr>script_dir = ''/d'', path_exists = (\<lambda>p. p = ''/d/Oscilloscope-Data/a.CSV''),
              listdir = (\<lambda>p. Inr [''b.CSV'', ''a.CSV'']), stdin_line = Some ''7'',
              py_int = ?int\<rparr>"
  let ?e1 = "\<lparr>script_dir = ''/d'', path_exists = (\<lambda>p. p = ''/d/Oscilloscope-Data/a.CSV''),
              listdir = (\<lambda>p. Inr [''b.CSV'', ''a.CSV'']), stdin_line = Some ''1'',
              py_int = ?int\<rparr>"
  let ?plot = "\<lambda>a::plot_args. RaisedBaseException"
  let ?names = "[''b.CSV'', ''a.CSV'']"
  have low: "lower ([''plot.py'', ''TEK0099''] ! 1) \<noteq> ''all''" by code_simp
  have path: "os_path_join ''/d''
           [''Oscilloscope-Data'',
            if endswith ([''plot.py'', ''TEK0099''] ! 1) ''.CSV'' then [''plot.py'', ''TEK0099''] ! 1
            else [''plot.py'', ''TEK0099''] ! 1 @ ''.CSV''] = ''/d/Oscilloscope-Data/TEK0099.CSV''"
    by code_simp
  have n: "length (csv_files_of ?names) = 2" by code_simp
  have dir: "os_path_join ''/d'' [''Oscilloscope-Data''] = ''/d/Oscilloscope-Data''" by code_simp
  have idx: "py_index (csv_files_of ?names) 1 = Inr ''b.CSV''" by code_simp
  have pb: "os_path_join ''/d/Oscilloscope-Data'' [''b.CSV''] = ''/d/Oscilloscope-Data/b.CSV''"
    by code_simp
  have A: "\<exists>tr. main ?e7 ?plot [''plot.py'', ''TEK0099''] = (Returned, tr) \<and>
         plot_calls tr = [] \<and>
         tr = [Print (''Error: File '' @ [CHR 0x27] @ ''/d/Oscilloscope-Data/TEK0099.CSV''
                       @ [CHR 0x27] @ '' not found.'')]"
    using main_bad_input_returns
      [of "[''plot.py'', ''TEK0099'']" ?e7 ?plot ?names "''7''" 7 "''b.CSV''", THEN conjunct1]
      low path
    by simp
  have B: "\<exists>tr. main ?e7 ?plot [''plot.py''] = (Returned, tr) \<and>
         plot_calls tr = [] \<and> tr \<noteq> [] \<and> last tr = Print ''Invalid selection. Exiting.''"
    using main_bad_input_returns
      [of "[''plot.py'']" ?e7 ?plot ?names "''7''" 7 "''b.CSV''", THEN conjunct2, THEN conjunct1]
      n dir
    by simp
  have C: "\<exists>tr. main ?e1 ?plot [''plot.py''] = (Returned, tr) \<and>
         plot_calls tr = [] \<and> tr \<noteq> [] \<and>
         last tr = Print (''Error: File '' @ [CHR 0x27] @ ''/d/Oscilloscope-Data/b.CSV''
                           @ [CHR 0x27] @ '' not found.'')"
    using main_bad_input_returns
      [of "[''plot.py'']" ?e1 ?plot ?names "''1''" 1 "''b.CSV''", THEN conjunct2, THEN conjunct2]
      idx dir pb
    by simp
  from A B C show ?thesis by (intro conjI)
qed

end
